theory Spec2Isabelle
  imports Main "HOL-Library.Char_ord" "HOL-Library.List_Lexorder" "HOL-Library.AList"
    "HOL-Library.Multiset"
begin

section \<open>Python values, exceptions and the external collaborators\<close>

text \<open>
  The embedding follows \<^verbatim>\<open>src/app/box.py\<close> and \<^verbatim>\<open>src/app/cli.py\<close>.
  A \<^verbatim>\<open>pathlib.Path\<close> is its (normalised) text. Backend keys and job handles are
  opaque Python values that may be \<^verbatim>\<open>None\<close> (\<^verbatim>\<open>_get_retrieval_keys\<close> returns
  \<^verbatim>\<open>None, None\<close> for an unknown source), hence \<open>string option\<close>.
\<close>

type_synonym path = string
type_synonym ident = "string option"
type_synonym options = "(string \<times> string) list"
type_synonym config = "string \<rightharpoonup> string"

text \<open>
  Every \<^verbatim>\<open>raise\<close> is a value: the class of the exception and \<^verbatim>\<open>str(e)\<close>.
  All classes listed are subclasses of \<^verbatim>\<open>Exception\<close>, so a handler
  \<^verbatim>\<open>except Exception\<close> catches each of them.
\<close>

datatype exc_class = Exception | KeyError | TypeError | AttributeError | UnboundLocalError | OSError

datatype pyexc = PyExc exc_class string

fun str :: "pyexc \<Rightarrow> string" where
  "str (PyExc c m) = m"

text \<open>A text between single quotes, as the interpreter prints names.\<close>

definition quoted :: "string \<Rightarrow> string" where
  "quoted s = [CHR 0x27] @ s @ [CHR 0x27]"

text \<open>
  Modelled from the spec: \<^verbatim>\<open>app.util.JobStatus\<close> is not among the sources. The spec gives the
  combined status of the two jobs as one of running, succeeded, failed; \<^verbatim>\<open>box.py\<close> names
  the members \<^verbatim>\<open>JobStatus.running\<close> and \<^verbatim>\<open>JobStatus.failure\<close>, and tests for no other.
\<close>

datatype JobStatus = running | succeeded | failure

text \<open>
  Modelled from the spec: the backend (\<^verbatim>\<open>app.backend\<close>) is not among the sources. It is a
  parameter: an object with a state of its own (type \<open>'b\<close>) whose methods return a value or
  raise, and change that state.
\<close>

record 'b backend =
  backend_box_init :: "'b \<Rightarrow> (pyexc + unit) \<times> 'b"
  backend_store :: "path \<Rightarrow> string \<Rightarrow> 'b \<Rightarrow> (pyexc + ident) \<times> 'b"
  backend_retrieve_init :: "ident \<Rightarrow> options \<Rightarrow> 'b \<Rightarrow> (pyexc + ident) \<times> 'b"
  backend_retrieve_status :: "ident \<Rightarrow> ident \<Rightarrow> 'b \<Rightarrow> (pyexc + JobStatus) \<times> 'b"
  backend_retrieve_finish :: "ident \<Rightarrow> 'b \<Rightarrow> (pyexc + path) \<times> 'b"
  backend_delete :: "ident \<Rightarrow> 'b \<Rightarrow> (pyexc + unit) \<times> 'b"

text \<open>
  Modelled from the spec: the GnuPG wrapper (\<^verbatim>\<open>app.gpg\<close>) is not among the sources.
  \<open>encrypt\<close> returns the paths of the two transient artifacts it produced, or raises.
\<close>

record gpg =
  encrypt :: "path \<Rightarrow> string \<Rightarrow> pyexc + path \<times> path"
  decrypt :: "path \<Rightarrow> path \<Rightarrow> path \<Rightarrow> pyexc + unit"

text \<open>
  What a call observes from outside the module: the factory \<^verbatim>\<open>get_backend\<close> and the
  value that \<^verbatim>\<open>uuid.uuid4()\<close> draws during the call.
\<close>

record 'b externals =
  get_backend :: "string \<Rightarrow> path \<Rightarrow> config \<Rightarrow> pyexc + 'b backend"
  uuid4 :: string

text \<open>Calls to the backend and the sleeps of the polling loop are recorded in order.\<close>

datatype event =
    BoxInit
  | Store path string
  | RetrieveInit ident options
  | RetrieveStatus ident ident
  | RetrieveFinish ident
  | Delete ident
  | Sleep nat

section \<open>The persisted state of one box\<close>

text \<open>
  The directory of a box: \<^verbatim>\<open>config.yml\<close> (\<open>None\<close> when the file is absent), the
  directories \<^verbatim>\<open>retrieval-keys\<close> and \<^verbatim>\<open>retrieval-jobs\<close> (\<open>None\<close> when the directory is
  absent; otherwise one entry per record file, in the order \<^verbatim>\<open>iterdir\<close> yields them),
  and the local files that exist outside the box directory. \<open>key_write_fault\<close> and
  \<open>job_write_fault\<close> say whether the operating system refuses to write a record
  (\<^verbatim>\<open>mkdir\<close> or \<^verbatim>\<open>open\<close> raising) and with which exception.
\<close>

type_synonym record_dir = "(string \<times> ident \<times> ident) list"

record 'b world =
  config_file :: "config option"
  retrieval_keys :: "record_dir option"
  retrieval_jobs :: "record_dir option"
  files :: "path set"
  key_write_fault :: "pyexc option"
  job_write_fault :: "pyexc option"
  bstate :: 'b
  events :: "event list"

text \<open>The fields of a \<^verbatim>\<open>Box\<close> object: \<^verbatim>\<open>self.path\<close>, \<^verbatim>\<open>self.config\<close>, \<^verbatim>\<open>self._gpg\<close>.\<close>

record Box =
  box_path :: path
  box_config :: config
  box_gpg :: "gpg option"

definition lookup :: "record_dir option \<Rightarrow> string \<Rightarrow> (ident \<times> ident) option" where
  "lookup d source = (case d of None \<Rightarrow> None | Some l \<Rightarrow> map_of l source)"

definition call :: "event \<Rightarrow> ('b \<Rightarrow> (pyexc + 'a) \<times> 'b) \<Rightarrow> 'b world \<Rightarrow> (pyexc + 'a) \<times> 'b world" where
  "call ev f w =
     (case f (bstate w) of (r, s) \<Rightarrow> (r, w\<lparr>bstate := s, events := events w @ [ev]\<rparr>))"

section \<open>Box: properties and record stores\<close>

definition exists :: "'b world \<Rightarrow> bool" where
  "exists w = (config_file w \<noteq> None)"

definition gpg :: "Box \<Rightarrow> pyexc + gpg" where
  "gpg bx = (case box_gpg bx of Some g \<Rightarrow> Inr g
             | None \<Rightarrow> Inl (PyExc Exception ''No GPG instance.''))"

definition key :: "Box \<Rightarrow> pyexc + string" where
  "key bx = (case box_config bx ''key-id'' of Some k \<Rightarrow> Inr k
             | None \<Rightarrow> Inl (PyExc Exception ''No key ID.''))"

text \<open>\<^verbatim>\<open>self.config['backend']\<close> raises \<^verbatim>\<open>KeyError\<close> when the configuration has no such entry.\<close>

definition backend :: "'b externals \<Rightarrow> Box \<Rightarrow> pyexc + 'b backend" where
  "backend ext bx =
     (case box_config bx ''backend'' of
        None \<Rightarrow> Inl (PyExc KeyError (quoted ''backend''))
      | Some kind \<Rightarrow> get_backend ext kind (box_path bx) (box_config bx))"

definition contains :: "string \<Rightarrow> 'b world \<Rightarrow> bool" where
  "contains source w = (lookup (retrieval_keys w) source \<noteq> None)"

definition get_retrieval_keys :: "string \<Rightarrow> 'b world \<Rightarrow> ident \<times> ident" where
  "get_retrieval_keys source w =
     (case lookup (retrieval_keys w) source of
        Some (data_key, meta_key) \<Rightarrow> (data_key, meta_key)
      | None \<Rightarrow> (None, None))"

definition set_retrieval_keys :: "string \<Rightarrow> ident \<Rightarrow> ident \<Rightarrow> 'b world \<Rightarrow> (pyexc + unit) \<times> 'b world" where
  "set_retrieval_keys source data_key meta_key w =
     (case key_write_fault w of
        Some e \<Rightarrow> (Inl e, w)
      | None \<Rightarrow>
          (Inr (), w\<lparr>retrieval_keys :=
             Some (AList.update source (data_key, meta_key)
                     (case retrieval_keys w of None \<Rightarrow> [] | Some d \<Rightarrow> d))\<rparr>))"

definition clear_retrieval_keys :: "string \<Rightarrow> 'b world \<Rightarrow> 'b world" where
  "clear_retrieval_keys source w =
     w\<lparr>retrieval_keys := map_option (AList.delete source) (retrieval_keys w)\<rparr>"

definition has_retrieval_jobs :: "string \<Rightarrow> 'b world \<Rightarrow> bool" where
  "has_retrieval_jobs source w = (lookup (retrieval_jobs w) source \<noteq> None)"

definition get_retrieval_jobs :: "string \<Rightarrow> 'b world \<Rightarrow> ident \<times> ident" where
  "get_retrieval_jobs source w =
     (case lookup (retrieval_jobs w) source of
        Some (data_job, meta_job) \<Rightarrow> (data_job, meta_job)
      | None \<Rightarrow> (None, None))"

definition set_retrieval_jobs :: "string \<Rightarrow> ident \<Rightarrow> ident \<Rightarrow> 'b world \<Rightarrow> (pyexc + unit) \<times> 'b world" where
  "set_retrieval_jobs source data_job meta_job w =
     (case job_write_fault w of
        Some e \<Rightarrow> (Inl e, w)
      | None \<Rightarrow>
          (Inr (), w\<lparr>retrieval_jobs :=
             Some (AList.update source (data_job, meta_job)
                     (case retrieval_jobs w of None \<Rightarrow> [] | Some d \<Rightarrow> d))\<rparr>))"

definition clear_retrieval_jobs :: "string \<Rightarrow> 'b world \<Rightarrow> 'b world" where
  "clear_retrieval_jobs source w =
     w\<lparr>retrieval_jobs := map_option (AList.delete source) (retrieval_jobs w)\<rparr>"

section \<open>Box.delete\<close>

text \<open>The body of the \<^verbatim>\<open>try\<close> block of \<^verbatim>\<open>Box.delete\<close>, then the whole method.\<close>

definition delete_try :: "'b backend \<Rightarrow> string \<Rightarrow> 'b world \<Rightarrow> (pyexc + unit) \<times> 'b world" where
  "delete_try b source w =
     (case get_retrieval_keys source w of (data_key, meta_key) \<Rightarrow>
        (case call (Delete data_key) (backend_delete b data_key) w of
           (Inl e, w1) \<Rightarrow> (Inl e, w1)
         | (Inr u, w1) \<Rightarrow>
             (case call (Delete meta_key) (backend_delete b meta_key) w1 of
                (Inl e, w2) \<Rightarrow> (Inl e, w2)
              | (Inr u2, w2) \<Rightarrow> (Inr (), clear_retrieval_keys source w2))))"

definition delete_failed :: "pyexc \<Rightarrow> pyexc" where
  "delete_failed e = PyExc Exception (''Delete operation failed. ('' @ str e @ '')'')"

definition delete :: "'b externals \<Rightarrow> Box \<Rightarrow> string \<Rightarrow> 'b world \<Rightarrow> (pyexc + unit) \<times> 'b world" where
  "delete ext bx source w =
     (case backend ext bx of
        Inl e \<Rightarrow> (Inl e, w)
      | Inr b \<Rightarrow>
          (case delete_try b source w of
             (Inl e, w1) \<Rightarrow> (Inl (delete_failed e), w1)
           | (Inr u, w1) \<Rightarrow> (Inr (), w1)))"

section \<open>Box.sources\<close>

text \<open>
  \<^verbatim>\<open>str.lower\<close> on the ASCII letters; names are taken to be ASCII. Strings compare as in
  Python, lexicographically by code point. \<^verbatim>\<open>list.sort\<close> is stable, as \<open>sort_key\<close> is.
\<close>

definition lower_char :: "char \<Rightarrow> char" where
  "lower_char c =
     (if CHR ''A'' \<le> c \<and> c \<le> CHR ''Z'' then char_of (of_char c + (32::nat)) else c)"

definition lower :: "string \<Rightarrow> string" where
  "lower s = map lower_char s"

record source_info =
  name :: string

definition sources :: "'b world \<Rightarrow> source_info list" where
  "sources w =
     (case retrieval_keys w of
        None \<Rightarrow> []
      | Some d \<Rightarrow> sort_key (\<lambda>s. lower (name s)) (map (\<lambda>child. \<lparr>name = fst child\<rparr>) d))"

section \<open>Box.store\<close>

definition DATA_SUFFIX :: string where
  "DATA_SUFFIX = ''.data''"

definition META_SUFFIX :: string where
  "META_SUFFIX = ''.meta''"

definition encrypted_names :: "string \<Rightarrow> string \<times> string" where
  "encrypted_names basename = (basename @ DATA_SUFFIX, basename @ META_SUFFIX)"

text \<open>\<^verbatim>\<open>Path.name\<close>: the final component of a path.\<close>

definition path_name :: "path \<Rightarrow> string" where
  "path_name p = rev (takeWhile (\<lambda>c. c \<noteq> CHR ''/'') (rev p))"

text \<open>\<^verbatim>\<open>if p and p.exists(): p.unlink()\<close>\<close>

definition unlink_if_exists :: "path \<Rightarrow> 'b world \<Rightarrow> 'b world" where
  "unlink_if_exists p w = (if p \<in> files w then w\<lparr>files := files w - {p}\<rparr> else w)"

text \<open>The body of the \<^verbatim>\<open>try\<close> block of \<^verbatim>\<open>Box.store\<close> (lines 84 to 88).\<close>

definition store_try ::
  "'b backend \<Rightarrow> string \<Rightarrow> path \<Rightarrow> string \<Rightarrow> path \<Rightarrow> string \<Rightarrow> 'b world \<Rightarrow> (pyexc + unit) \<times> 'b world" where
  "store_try b source data_path data_name meta_path meta_name w =
     (case call (Store data_path data_name) (backend_store b data_path data_name) w of
        (Inl e, w1) \<Rightarrow> (Inl e, w1)
      | (Inr data_key, w1) \<Rightarrow>
          (case call (Store meta_path meta_name) (backend_store b meta_path meta_name) w1 of
             (Inl e, w2) \<Rightarrow> (Inl e, w2)
           | (Inr meta_key, w2) \<Rightarrow> set_retrieval_keys source data_key meta_key w2))"

definition storage_failed :: "pyexc \<Rightarrow> pyexc" where
  "storage_failed e = PyExc Exception (''Storage operation failed. ('' @ str e @ '')'')"

text \<open>The \<^verbatim>\<open>finally\<close> block of \<^verbatim>\<open>Box.store\<close>; both variables are bound when it runs.\<close>

definition store_finally :: "path \<Rightarrow> path \<Rightarrow> 'b world \<Rightarrow> 'b world" where
  "store_finally data_path meta_path w = unlink_if_exists meta_path (unlink_if_exists data_path w)"

text \<open>
  \<^verbatim>\<open>Box.store\<close>. The encryption creates the two transient artifacts; the backend instance
  is obtained after that and before the \<^verbatim>\<open>try\<close> statement is entered.
\<close>

definition store :: "'b externals \<Rightarrow> Box \<Rightarrow> path \<Rightarrow> 'b world \<Rightarrow> (pyexc + unit) \<times> 'b world" where
  "store ext bx src_path w =
     (let source = path_name src_path in
      case gpg bx of
        Inl e \<Rightarrow> (Inl e, w)
      | Inr g \<Rightarrow>
      (case key bx of
        Inl e \<Rightarrow> (Inl e, w)
      | Inr k \<Rightarrow>
      (case encrypt g src_path k of
        Inl e \<Rightarrow> (Inl e, w)
      | Inr (data_path, meta_path) \<Rightarrow>
      (let w0 = w\<lparr>files := files w \<union> {data_path, meta_path}\<rparr> in
       case encrypted_names (uuid4 ext) of (data_name, meta_name) \<Rightarrow>
      (case backend ext bx of
        Inl e \<Rightarrow> (Inl e, w0)
      | Inr b \<Rightarrow>
      (case store_try b source data_path data_name meta_path meta_name w0 of
        (Inl e, w1) \<Rightarrow> (Inl (storage_failed e), store_finally data_path meta_path w1)
      | (Inr u, w1) \<Rightarrow> (Inr (), store_finally data_path meta_path w1)))))))"

section \<open>Box.retrieve\<close>

text \<open>Lines 103 to 109: get the existing jobs or start new ones.\<close>

definition retrieve_jobs ::
  "'b backend \<Rightarrow> string \<Rightarrow> options \<Rightarrow> 'b world \<Rightarrow> (pyexc + ident \<times> ident) \<times> 'b world" where
  "retrieve_jobs b source backend_options w =
     (if has_retrieval_jobs source w then (Inr (get_retrieval_jobs source w), w)
      else
        (case get_retrieval_keys source w of (data_key, meta_key) \<Rightarrow>
          (case call (RetrieveInit data_key backend_options)
                  (backend_retrieve_init b data_key backend_options) w of
             (Inl e, w1) \<Rightarrow> (Inl e, w1)
           | (Inr data_job, w1) \<Rightarrow>
               (case call (RetrieveInit meta_key backend_options)
                       (backend_retrieve_init b meta_key backend_options) w1 of
                  (Inl e, w2) \<Rightarrow> (Inl e, w2)
                | (Inr meta_job, w2) \<Rightarrow>
                    (case set_retrieval_jobs source data_job meta_job w2 of
                       (Inl e, w3) \<Rightarrow> (Inl e, w3)
                     | (Inr u, w3) \<Rightarrow> (Inr (data_job, meta_job), w3))))))"

text \<open>
  Lines 112 to 116: ask for the status, and while it is \<^verbatim>\<open>running\<close> sleep 60 seconds and
  ask again. The loop need not end: \<open>None\<close> is a call that never returns.
\<close>

partial_function (option) poll ::
  "'b backend \<Rightarrow> ident \<Rightarrow> ident \<Rightarrow> 'b world \<Rightarrow> ((pyexc + JobStatus) \<times> 'b world) option" where
  "poll b data_job meta_job w =
     (case call (RetrieveStatus data_job meta_job) (backend_retrieve_status b data_job meta_job) w of
        (Inl e, w1) \<Rightarrow> Some (Inl e, w1)
      | (Inr status, w1) \<Rightarrow>
          if status = running
          then poll b data_job meta_job (w1\<lparr>events := events w1 @ [Sleep 60]\<rparr>)
          else Some (Inr status, w1))"

declare poll.simps [code]

text \<open>
  Lines 117 to 128, entered with the final status. The result carries the local
  variables \<^verbatim>\<open>data_path\<close> and \<^verbatim>\<open>meta_path\<close> as they are when the \<^verbatim>\<open>try\<close> block is
  left: \<open>None\<close> is a variable that was never assigned. A file that the backend has
  downloaded exists from then on.
\<close>

definition retrieve_download ::
  "'b backend \<Rightarrow> Box \<Rightarrow> string \<Rightarrow> path \<Rightarrow> ident \<Rightarrow> ident \<Rightarrow> JobStatus \<Rightarrow> 'b world
     \<Rightarrow> (pyexc + unit) \<times> path option \<times> path option \<times> 'b world" where
  "retrieve_download b bx source dst_path data_job meta_job status w =
     (let w0 = clear_retrieval_jobs source w in
      if status = failure then (Inl (PyExc Exception ''Retrieval job failed.''), None, None, w0)
      else
        (case call (RetrieveFinish data_job) (backend_retrieve_finish b data_job) w0 of
           (Inl e, w1) \<Rightarrow> (Inl e, None, None, w1)
         | (Inr data_path, w1) \<Rightarrow>
             (case call (RetrieveFinish meta_job) (backend_retrieve_finish b meta_job)
                     (w1\<lparr>files := insert data_path (files w1)\<rparr>) of
                (Inl e, w2) \<Rightarrow> (Inl e, Some data_path, None, w2)
              | (Inr meta_path, w2) \<Rightarrow>
                  (let w3 = w2\<lparr>files := insert meta_path (files w2)\<rparr> in
                   case gpg bx of
                     Inl e \<Rightarrow> (Inl e, Some data_path, Some meta_path, w3)
                   | Inr g \<Rightarrow>
                       (decrypt g data_path meta_path dst_path,
                        Some data_path, Some meta_path, w3)))))"

text \<open>The whole \<^verbatim>\<open>try\<close> block of \<^verbatim>\<open>Box.retrieve\<close>.\<close>

definition retrieve_try ::
  "'b backend \<Rightarrow> Box \<Rightarrow> string \<Rightarrow> path \<Rightarrow> options \<Rightarrow> 'b world
     \<Rightarrow> ((pyexc + unit) \<times> path option \<times> path option \<times> 'b world) option" where
  "retrieve_try b bx source dst_path backend_options w =
     (case retrieve_jobs b source backend_options w of
        (Inl e, w1) \<Rightarrow> Some (Inl e, None, None, w1)
      | (Inr (data_job, meta_job), w1) \<Rightarrow>
          (case poll b data_job meta_job w1 of
             None \<Rightarrow> None
           | Some (Inl e, w2) \<Rightarrow> Some (Inl e, None, None, w2)
           | Some (Inr status, w2) \<Rightarrow>
               Some (retrieve_download b bx source dst_path data_job meta_job status w2)))"

definition retrieval_failed :: "pyexc \<Rightarrow> pyexc" where
  "retrieval_failed e = PyExc Exception (''Retrieval operation failed. ('' @ str e @ '')'')"

text \<open>
  The \<^verbatim>\<open>finally\<close> block of \<^verbatim>\<open>Box.retrieve\<close> (lines 133 to 136). It reads the local variables
  \<^verbatim>\<open>data_path\<close> and \<^verbatim>\<open>meta_path\<close>, which are assigned on lines 123 and 124 only: reading
  one that was never assigned raises \<^verbatim>\<open>UnboundLocalError\<close>, and an exception raised in a
  \<^verbatim>\<open>finally\<close> block replaces the one that was propagating. The argument \<open>r\<close> is the outcome
  after the \<^verbatim>\<open>except\<close> clause. The wording of the message varies with the interpreter; its
  class does not.
\<close>

definition unbound_local :: "string \<Rightarrow> pyexc" where
  "unbound_local v =
     PyExc UnboundLocalError
       (''local variable '' @ quoted v @ '' referenced before assignment'')"

definition retrieve_finally ::
  "(pyexc + unit) \<Rightarrow> path option \<Rightarrow> path option \<Rightarrow> 'b world \<Rightarrow> (pyexc + unit) \<times> 'b world" where
  "retrieve_finally r data_path meta_path w =
     (case data_path of
        None \<Rightarrow> (Inl (unbound_local ''data_path''), w)
      | Some dp \<Rightarrow>
          (let w1 = unlink_if_exists dp w in
           case meta_path of
             None \<Rightarrow> (Inl (unbound_local ''meta_path''), w1)
           | Some mp \<Rightarrow> (r, unlink_if_exists mp w1)))"

definition retrieve ::
  "'b externals \<Rightarrow> Box \<Rightarrow> string \<Rightarrow> path \<Rightarrow> options \<Rightarrow> 'b world
     \<Rightarrow> ((pyexc + unit) \<times> 'b world) option" where
  "retrieve ext bx source dst_path backend_options w =
     (case backend ext bx of
        Inl e \<Rightarrow> Some (Inl e, w)
      | Inr b \<Rightarrow>
          (case retrieve_try b bx source dst_path backend_options w of
             None \<Rightarrow> None
           | Some (r, data_path, meta_path, w1) \<Rightarrow>
               Some (retrieve_finally
                       (case r of Inl e \<Rightarrow> Inl (retrieval_failed e) | Inr u \<Rightarrow> Inr ())
                       data_path meta_path w1)))"

section \<open>The command line: put and get\<close>

text \<open>
  The arguments of a call are Python values. Binding the positional arguments of a method
  call to the parameters that follow \<^verbatim>\<open>self\<close> in the \<^verbatim>\<open>def\<close> raises \<^verbatim>\<open>TypeError\<close> when
  their numbers differ, before the body runs. The message is the interpreter's; it is
  given in the wording that names the function without its class.
\<close>

datatype pyval = PathVal path | StrVal string | OptionsVal options

function show_nat :: "nat \<Rightarrow> string" where
  "show_nat n =
     (if n < 10 then [char_of (48 + n)] else show_nat (n div 10) @ [char_of (48 + n mod 10)])"
  by pat_completeness auto
termination
  by (relation "measure id") auto

declare show_nat.simps [simp del]

fun name_list :: "string list \<Rightarrow> string" where
  "name_list [] = []"
| "name_list [a] = quoted a"
| "name_list [a, b] = quoted a @ '' and '' @ quoted b"
| "name_list (a # rest) = quoted a @ '', '' @ name_list rest"

definition check_positional :: "string \<Rightarrow> string list \<Rightarrow> nat \<Rightarrow> pyexc option" where
  "check_positional fname params given =
     (if given = length params then None
      else if given < length params then
        Some (PyExc TypeError
          (fname @ ''() missing '' @ show_nat (length params - given)
             @ '' required positional argument''
             @ (if length params - given = 1 then [] else ''s'') @ '': ''
             @ name_list (drop given params)))
      else
        Some (PyExc TypeError
          (fname @ ''() takes '' @ show_nat (Suc (length params))
             @ '' positional arguments but '' @ show_nat (Suc given) @ '' were given'')))"

text \<open>
  A call \<^verbatim>\<open>box.store(...)\<close> of \<^verbatim>\<open>def store(self, src_path)\<close>. The first statement of the
  body reads \<^verbatim>\<open>src_path.name\<close>, which only a path has.
\<close>

definition store_call ::
  "'b externals \<Rightarrow> Box \<Rightarrow> pyval list \<Rightarrow> 'b world \<Rightarrow> (pyexc + unit) \<times> 'b world" where
  "store_call ext bx args w =
     (case check_positional ''store'' [''src_path''] (length args) of
        Some e \<Rightarrow> (Inl e, w)
      | None \<Rightarrow>
          (case args of
             [PathVal src_path] \<Rightarrow> store ext bx src_path w
           | _ \<Rightarrow> (Inl (PyExc AttributeError (''object has no attribute '' @ quoted ''name'')), w)))"

text \<open>
  A call \<^verbatim>\<open>box.retrieve(...)\<close> of \<^verbatim>\<open>def retrieve(self, source, dst_path, backend_options)\<close>.
  Of the calls that bind, the ones with a string, a path and an options mapping are
  modelled; \<^verbatim>\<open>cli.py\<close> makes no call that binds.
\<close>

definition retrieve_call ::
  "'b externals \<Rightarrow> Box \<Rightarrow> pyval list \<Rightarrow> 'b world \<Rightarrow> ((pyexc + unit) \<times> 'b world) option" where
  "retrieve_call ext bx args w =
     (case check_positional ''retrieve'' [''source'', ''dst_path'', ''backend_options'']
             (length args) of
        Some e \<Rightarrow> Some (Inl e, w)
      | None \<Rightarrow>
          (case args of
             [StrVal source, PathVal dst_path, OptionsVal backend_options] \<Rightarrow>
               retrieve ext bx source dst_path backend_options w
           | _ \<Rightarrow> Some (Inl (PyExc TypeError ''argument of unsupported type''), w)))"

text \<open>
  \<^verbatim>\<open>get_box\<close> and \<^verbatim>\<open>Box.__init__\<close>: the configuration is read from \<^verbatim>\<open>config.yml\<close> when the
  file exists and is empty otherwise; \<^verbatim>\<open>_gpg\<close> is \<^verbatim>\<open>None\<close>.
\<close>

definition get_box :: "path \<Rightarrow> string \<Rightarrow> 'b world \<Rightarrow> Box" where
  "get_box base_path box_name w =
     \<lparr>box_path = base_path @ ''/'' @ box_name,
      box_config = (case config_file w of Some c \<Rightarrow> c | None \<Rightarrow> Map.empty),
      box_gpg = None\<rparr>"

text \<open>
  A command ends with the lines it has echoed and its exit status: \<^verbatim>\<open>ctx.exit(1)\<close> is
  status 1, falling off the end is status 0. The parameter \<open>g\<close> is the object that
  \<^verbatim>\<open>GPG(base_path.joinpath('GPG'))\<close> returns.
\<close>

type_synonym cli_result = "string list \<times> nat"

definition put ::
  "'b externals \<Rightarrow> gpg \<Rightarrow> path \<Rightarrow> string \<Rightarrow> path \<Rightarrow> 'b world \<Rightarrow> cli_result \<times> 'b world" where
  "put ext g base_path box_name source w =
     (let box = get_box base_path box_name w in
      if \<not> exists w then (([''Box not found.''], 1), w)
      else
        (let src_path = source; src_name = path_name src_path in
         if contains src_name w then (([''Source name already exists in box.''], 1), w)
         else
           (case key box of
              Inl e \<Rightarrow> (([str e], 1), w)
            | Inr k \<Rightarrow>
                (case encrypt g src_path k of
                   Inl e \<Rightarrow> (([str e], 1), w)
                 | Inr (data_path, meta_path) \<Rightarrow>
                     (let w0 = w\<lparr>files := files w \<union> {data_path, meta_path}\<rparr> in
                      case store_call ext box
                             [PathVal data_path, PathVal meta_path, StrVal src_name] w0 of
                        (Inl e, w1) \<Rightarrow>
                          (([str e], 1),
                           unlink_if_exists meta_path (unlink_if_exists data_path w1))
                      | (Inr u, w1) \<Rightarrow>
                          (([], 0),
                           unlink_if_exists meta_path (unlink_if_exists data_path w1)))))))"

text \<open>
  In \<^verbatim>\<open>get\<close> the variables \<^verbatim>\<open>data_path\<close> and \<^verbatim>\<open>meta_path\<close> are \<^verbatim>\<open>None\<close> until the result of
  \<^verbatim>\<open>box.retrieve\<close> is unpacked. \<^verbatim>\<open>Box.retrieve\<close> has no \<^verbatim>\<open>return\<close> statement, so unpacking
  its result raises \<^verbatim>\<open>TypeError\<close>, and the \<^verbatim>\<open>finally\<close> block finds both variables \<^verbatim>\<open>None\<close>.
\<close>

definition get ::
  "'b externals \<Rightarrow> gpg \<Rightarrow> path \<Rightarrow> string \<Rightarrow> string \<Rightarrow> path \<Rightarrow> 'b world
     \<Rightarrow> (cli_result \<times> 'b world) option" where
  "get ext g base_path box_name source destination w =
     (let box = get_box base_path box_name w in
      if \<not> exists w then Some (([''Box not found.''], 1), w)
      else if \<not> contains source w then Some (([''Source name not found in box.''], 1), w)
      else
        (case retrieve_call ext box [StrVal source] w of
           None \<Rightarrow> None
         | Some (Inl e, w1) \<Rightarrow> Some (([str e], 1), w1)
         | Some (Inr u, w1) \<Rightarrow>
             Some (([''cannot unpack non-iterable NoneType object''], 1), w1)))"

section \<open>Concrete collaborators for running the model\<close>

text \<open>
  A backend that counts its calls and raises on the call whose number is \<open>fail_at\<close>. Its
  state also holds the statuses it will report, in order (\<^verbatim>\<open>succeeded\<close> once they are used
  up).
\<close>

definition boom :: pyexc where
  "boom = PyExc OSError ''backend unavailable''"

definition show_ident :: "ident \<Rightarrow> string" where
  "show_ident k = (case k of None \<Rightarrow> ''None'' | Some s \<Rightarrow> s)"

definition stub_backend :: "nat option \<Rightarrow> (nat \<times> JobStatus list) backend" where
  "stub_backend fail_at =
     \<lparr>backend_box_init = (\<lambda>(n, q). (if fail_at = Some n then Inl boom else Inr (), (Suc n, q))),
      backend_store = (\<lambda>p nm (n, q).
        (if fail_at = Some n then Inl boom else Inr (Some (''key:'' @ nm)), (Suc n, q))),
      backend_retrieve_init = (\<lambda>k opts (n, q).
        (if fail_at = Some n then Inl boom else Inr (Some (''job:'' @ show_ident k)), (Suc n, q))),
      backend_retrieve_status = (\<lambda>dj mj (n, q).
        (if fail_at = Some n then Inl boom
         else Inr (case q of [] \<Rightarrow> succeeded | s # rest \<Rightarrow> s), (Suc n, tl q))),
      backend_retrieve_finish = (\<lambda>j (n, q).
        (if fail_at = Some n then Inl boom else Inr (''/tmp/'' @ show_ident j), (Suc n, q))),
      backend_delete = (\<lambda>k (n, q). (if fail_at = Some n then Inl boom else Inr (), (Suc n, q)))\<rparr>"

definition stub_gpg :: gpg where
  "stub_gpg =
     \<lparr>encrypt = (\<lambda>p k. Inr (p @ ''.gpg'', p @ ''.sig'')),
      decrypt = (\<lambda>dp mp dst. Inr ())\<rparr>"

definition stub_ext :: "nat option \<Rightarrow> (nat \<times> JobStatus list) externals" where
  "stub_ext fail_at =
     \<lparr>get_backend = (\<lambda>kind p c.
        if kind = ''folder'' then Inr (stub_backend fail_at)
        else Inl (PyExc Exception ''Unknown backend.'')),
      uuid4 = ''u1''\<rparr>"

definition stub_config :: config where
  "stub_config = [''backend'' \<mapsto> ''folder'', ''key-id'' \<mapsto> ''ABCD'']"

definition stub_box :: Box where
  "stub_box = \<lparr>box_path = ''/base/box'', box_config = stub_config, box_gpg = Some stub_gpg\<rparr>"

text \<open>A box whose configuration has a key but names no backend.\<close>

definition keyonly_box :: Box where
  "keyonly_box =
     \<lparr>box_path = ''/base/box'', box_config = [''key-id'' \<mapsto> ''ABCD''], box_gpg = Some stub_gpg\<rparr>"

definition stub_world ::
  "record_dir option \<Rightarrow> record_dir option \<Rightarrow> JobStatus list \<Rightarrow> (nat \<times> JobStatus list) world" where
  "stub_world keys jobs statuses =
     \<lparr>config_file = Some stub_config, retrieval_keys = keys, retrieval_jobs = jobs,
      files = {}, key_write_fault = None, job_write_fault = None,
      bstate = (0, statuses), events = []\<rparr>"

section \<open>Reading the trace of a call\<close>

text \<open>The events a call has added to the trace, and the job initiations among them.\<close>

definition new_events :: "'b world \<Rightarrow> 'b world \<Rightarrow> event list" where
  "new_events w w' = drop (length (events w)) (events w')"

fun is_retrieve_init :: "event \<Rightarrow> bool" where
  "is_retrieve_init (RetrieveInit k opts) = True"
| "is_retrieve_init ev = False"

definition init_calls :: "event list \<Rightarrow> event list" where
  "init_calls evs = filter is_retrieve_init evs"

text \<open>The world used in the examples for \<^verbatim>\<open>Box.sources\<close>: three stored names.\<close>

definition fruit_dir :: record_dir where
  "fruit_dir = [(''Banana'', None, None), (''apple'', None, None), (''Cherry'', None, None)]"

definition fruit_world :: "(nat \<times> JobStatus list) world" where
  "fruit_world = stub_world (Some fruit_dir) None []"

text \<open>A box holding the source \<^verbatim>\<open>a.txt\<close>, without and with a pending job record.\<close>

definition one_key_dir :: record_dir where
  "one_key_dir = [(''a.txt'', Some ''k1'', Some ''k2'')]"

definition one_job_dir :: record_dir where
  "one_job_dir = [(''a.txt'', Some ''j1'', Some ''j2'')]"

definition stored_world :: "JobStatus list \<Rightarrow> (nat \<times> JobStatus list) world" where
  "stored_world statuses = stub_world (Some one_key_dir) None statuses"

definition pending_world :: "JobStatus list \<Rightarrow> (nat \<times> JobStatus list) world" where
  "pending_world statuses = stub_world (Some one_key_dir) (Some one_job_dir) statuses"

definition empty_world :: "(nat \<times> JobStatus list) world" where
  "empty_world = stub_world None None []"

text \<open>What the polling loop may have done when it ends, and the events of a pair of jobs.\<close>

definition poll_post ::
  "ident \<Rightarrow> ident \<Rightarrow> 'b world \<Rightarrow> ((pyexc + JobStatus) \<times> 'b world) \<Rightarrow> bool" where
  "poll_post data_job meta_job w y \<longleftrightarrow>
     retrieval_keys (snd y) = retrieval_keys w \<and> retrieval_jobs (snd y) = retrieval_jobs w
     \<and> files (snd y) = files w \<and> fst y \<noteq> Inr running
     \<and> (\<exists>evs. events (snd y) = events w @ evs
            \<and> set evs \<subseteq> {RetrieveStatus data_job meta_job, Sleep 60})"

definition job_events :: "ident \<times> ident \<Rightarrow> event set" where
  "job_events jobs =
     {RetrieveStatus (fst jobs) (snd jobs), Sleep 60,
      RetrieveFinish (fst jobs), RetrieveFinish (snd jobs)}"

section \<open>Box.sources: the listing is complete and ordered\<close>

lemma names_of_children:
  "image_mset name (image_mset (\<lambda>child. \<lparr>name = fst child\<rparr>) (mset d)) = image_mset fst (mset d)"
  by (simp add: multiset.map_comp comp_def)

lemma sources_fruit_example:
  "sources fruit_world = [\<lparr>name = ''apple''\<rparr>, \<lparr>name = ''Banana''\<rparr>, \<lparr>name = ''Cherry''\<rparr>]"
  by code_simp

text \<open>
  Claim C10. Whatever the key store holds, \<^verbatim>\<open>Box.sources\<close> returns one record per stored
  name (the names with their multiplicities are those of the directory), ordered
  ascending by the lower-cased name; without a key store directory it returns the
  empty list.
\<close>

theorem sources_lists_all_names_sorted_case_insensitively:
  "(retrieval_keys w = None \<longrightarrow> sources w = []) \<and>
   (\<forall>d. retrieval_keys w = Some d \<longrightarrow>
      mset (map name (sources w)) = mset (map fst d) \<and>
      sorted (map (\<lambda>s. lower (name s)) (sources w)))"
  by (simp add: sources_def names_of_children)

theorem sources_lists_all_names_sorted_case_insensitively_witness:
  "retrieval_keys fruit_world = Some fruit_dir \<and>
   mset (map name (sources fruit_world)) = mset (map fst fruit_dir) \<and>
   sorted (map (\<lambda>s. lower (name s)) (sources fruit_world)) \<and>
   map name (sources fruit_world) = [''apple'', ''Banana'', ''Cherry'']"
proof -
  have dir: "retrieval_keys fruit_world = Some fruit_dir"
    by (simp add: fruit_world_def stub_world_def)
  have "map name (sources fruit_world) = [''apple'', ''Banana'', ''Cherry'']"
    by (simp add: sources_fruit_example)
  with dir sources_lists_all_names_sorted_case_insensitively [of fruit_world]
  show ?thesis by blast
qed

section \<open>Box.delete: the key record outlives a failed backend deletion\<close>

text \<open>
  Claim C8. \<^verbatim>\<open>Box.delete\<close> asks the backend to delete the data key, then the meta key, and
  clears the key record only when both calls have returned. When the first call raises,
  or the first returns and the second raises, the key store is left as it was and the
  call fails with the \<^verbatim>\<open>Delete operation failed\<close> exception that wraps the backend's.
\<close>

theorem delete_clears_key_record_only_after_both_backend_deletes:
  assumes "backend ext bx = Inr b"
      and "get_retrieval_keys source w = (data_key, meta_key)"
      and "backend_delete b data_key (bstate w) = (r1, s1)"
      and "backend_delete b meta_key s1 = (r2, s2)"
      and "delete ext bx source w = (r, w')"
  shows "(case r1 of
            Inl e \<Rightarrow>
              r = Inl (delete_failed e) \<and> retrieval_keys w' = retrieval_keys w
              \<and> new_events w w' = [Delete data_key]
          | Inr u \<Rightarrow>
              new_events w w' = [Delete data_key, Delete meta_key]
              \<and> (case r2 of
                    Inl e \<Rightarrow> r = Inl (delete_failed e) \<and> retrieval_keys w' = retrieval_keys w
                  | Inr u2 \<Rightarrow> r = Inr () \<and> \<not> contains source w'))"
  using assms
  by (auto simp: delete_def delete_try_def call_def new_events_def clear_retrieval_keys_def
        contains_def lookup_def AList.delete_conv' split: sum.splits option.splits)

lemmas stub_defs = stub_ext_def stub_box_def stub_backend_def stub_gpg_def stub_config_def
  stub_world_def stored_world_def pending_world_def empty_world_def one_key_dir_def
  one_job_dir_def boom_def show_ident_def keyonly_box_def

lemmas box_defs = backend_def key_def gpg_def contains_def lookup_def get_retrieval_keys_def
  set_retrieval_keys_def clear_retrieval_keys_def has_retrieval_jobs_def get_retrieval_jobs_def
  set_retrieval_jobs_def clear_retrieval_jobs_def call_def new_events_def exists_def

lemmas store_defs = store_def store_try_def store_finally_def unlink_if_exists_def
  encrypted_names_def DATA_SUFFIX_def META_SUFFIX_def path_name_def storage_failed_def

lemma stub_backend_is_backend: "backend (stub_ext f) stub_box = Inr (stub_backend f)"
  by (simp add: backend_def stub_ext_def stub_box_def stub_config_def)

theorem delete_clears_key_record_only_after_both_backend_deletes_witness:
  "contains ''a.txt'' (stored_world []) \<and>
   fst (delete (stub_ext (Some 1)) stub_box ''a.txt'' (stored_world []))
     = Inl (delete_failed boom) \<and>
   retrieval_keys (snd (delete (stub_ext (Some 1)) stub_box ''a.txt'' (stored_world [])))
     = Some one_key_dir"
proof -
  let ?w = "stored_world []"
  let ?run = "delete (stub_ext (Some 1)) stub_box ''a.txt'' ?w"
  have h1: "backend (stub_ext (Some 1)) stub_box = Inr (stub_backend (Some 1))"
    by (rule stub_backend_is_backend)
  have h2: "get_retrieval_keys ''a.txt'' ?w = (Some ''k1'', Some ''k2'')"
    by (simp add: box_defs stub_defs)
  have h3: "backend_delete (stub_backend (Some 1)) (Some ''k1'') (bstate ?w) = (Inr (), (1, []))"
    by (simp add: stub_defs)
  have h4: "backend_delete (stub_backend (Some 1)) (Some ''k2'') (1, []) = (Inl boom, (2, []))"
    by (simp add: stub_defs)
  have h5: "?run = (fst ?run, snd ?run)"
    by simp
  have k: "retrieval_keys ?w = Some one_key_dir" "contains ''a.txt'' ?w"
    by (simp_all add: box_defs stub_defs)
  from delete_clears_key_record_only_after_both_backend_deletes [OF h1 h2 h3 h4 h5] k
  show ?thesis by simp
qed

section \<open>Box.delete of a name that is not stored\<close>

text \<open>
  Claim C9 as stated (the call fails with a not-found error) does not hold: for a name
  without a key record the stub backend accepts the deletion of the key \<^verbatim>\<open>None\<close>, and
  \<^verbatim>\<open>Box.delete\<close> returns normally.
\<close>

theorem delete_of_unknown_source_returns_normally:
  "\<not> contains ''a.txt'' empty_world \<and>
   fst (delete (stub_ext None) stub_box ''a.txt'' empty_world) = Inr ()"
  by (simp add: delete_def delete_try_def box_defs stub_defs)

text \<open>
  Claim C9, amended. \<^verbatim>\<open>Box.delete\<close> does not look whether the name is stored. For a name
  without a key record it asks the backend to delete the key \<^verbatim>\<open>None\<close>, for the data and
  then for the metadata; the outcome is the backend's: the call returns normally when
  both calls return, and fails with the \<^verbatim>\<open>Delete operation failed\<close> exception when one
  of them raises. The key store is unchanged.
\<close>

theorem delete_of_unknown_source_defers_to_backend:
  assumes "\<not> contains source w"
      and "backend ext bx = Inr b"
      and "backend_delete b None (bstate w) = (r1, s1)"
      and "backend_delete b None s1 = (r2, s2)"
      and "delete ext bx source w = (r, w')"
  shows "retrieval_keys w' = retrieval_keys w \<and>
         (case r1 of
            Inl e \<Rightarrow> r = Inl (delete_failed e) \<and> new_events w w' = [Delete None]
          | Inr u \<Rightarrow>
              new_events w w' = [Delete None, Delete None]
              \<and> (case r2 of Inl e \<Rightarrow> r = Inl (delete_failed e) | Inr u2 \<Rightarrow> r = Inr ()))"
  using assms
  by (auto simp: delete_def delete_try_def box_defs map_of_eq_None_iff
        split: sum.splits option.splits)

theorem delete_of_unknown_source_defers_to_backend_witness:
  "\<not> contains ''a.txt'' empty_world \<and>
   delete (stub_ext None) stub_box ''a.txt'' empty_world =
     (Inr (), empty_world\<lparr>bstate := (2, []), events := [Delete None, Delete None]\<rparr>)"
proof -
  let ?w = "empty_world"
  let ?w' = "empty_world\<lparr>bstate := (2, []), events := [Delete None, Delete None]\<rparr>"
  have h0: "\<not> contains ''a.txt'' ?w"
    by (simp add: box_defs stub_defs)
  have h1: "backend (stub_ext None) stub_box = Inr (stub_backend None)"
    by (rule stub_backend_is_backend)
  have h3: "backend_delete (stub_backend None) None (bstate ?w) = (Inr (), (1, []))"
    by (simp add: stub_defs)
  have h4: "backend_delete (stub_backend None) None (1, []) = (Inr (), (2, []))"
    by (simp add: stub_defs)
  have h5: "delete (stub_ext None) stub_box ''a.txt'' ?w = (Inr (), ?w')"
    by (simp add: delete_def delete_try_def box_defs stub_defs)
  from delete_of_unknown_source_defers_to_backend [OF h0 h1 h3 h4 h5] h0 h5
  show ?thesis by simp
qed

section \<open>Box.store: the key record and the transient artifacts\<close>

lemma files_unlink_if_exists: "files (unlink_if_exists p w) = files w - {p}"
  by (simp add: unlink_if_exists_def)

lemma unlink_if_exists_frame:
  "retrieval_keys (unlink_if_exists p w) = retrieval_keys w"
  "retrieval_jobs (unlink_if_exists p w) = retrieval_jobs w"
  "events (unlink_if_exists p w) = events w"
  "bstate (unlink_if_exists p w) = bstate w"
  by (simp_all add: unlink_if_exists_def)

lemma store_finally_frame:
  "retrieval_keys (store_finally dp mp w) = retrieval_keys w"
  "events (store_finally dp mp w) = events w"
  "files (store_finally dp mp w) = files w - {dp} - {mp}"
  by (simp_all add: store_finally_def unlink_if_exists_frame files_unlink_if_exists)

lemma files_store_try:
  "store_try b source data_path data_name meta_path meta_name w = (r, w1) \<Longrightarrow> files w1 = files w"
  by (auto simp: store_try_def call_def set_retrieval_keys_def
        split: sum.splits prod.splits option.splits)

text \<open>
  Claim C4. Take a call of \<^verbatim>\<open>Box.store\<close> that reaches its two backend calls. The data
  artifact is stored first, the metadata artifact second, and only if the first call
  returned. When either call raises, \<^verbatim>\<open>Box.store\<close> fails with the
  \<^verbatim>\<open>Storage operation failed\<close> exception wrapping the backend's, and the key store is as
  before. The key record is written after both calls have returned, with the two keys
  they returned.
\<close>

theorem store_writes_key_record_only_after_both_backend_stores:
  assumes "gpg bx = Inr g" and "key bx = Inr k"
      and "encrypt g src_path k = Inr (data_path, meta_path)"
      and "backend ext bx = Inr b"
      and "encrypted_names (uuid4 ext) = (data_name, meta_name)"
      and "backend_store b data_path data_name (bstate w) = (r1, s1)"
      and "backend_store b meta_path meta_name s1 = (r2, s2)"
      and "store ext bx src_path w = (r, w')"
  shows "(case r1 of
            Inl e \<Rightarrow>
              r = Inl (storage_failed e) \<and> retrieval_keys w' = retrieval_keys w
              \<and> new_events w w' = [Store data_path data_name]
          | Inr data_key \<Rightarrow>
              new_events w w' = [Store data_path data_name, Store meta_path meta_name]
              \<and> (case r2 of
                    Inl e \<Rightarrow> r = Inl (storage_failed e) \<and> retrieval_keys w' = retrieval_keys w
                  | Inr meta_key \<Rightarrow>
                      (case key_write_fault w of
                         Some e \<Rightarrow>
                           r = Inl (storage_failed e) \<and> retrieval_keys w' = retrieval_keys w
                       | None \<Rightarrow>
                           r = Inr ()
                           \<and> lookup (retrieval_keys w') (path_name src_path)
                               = Some (data_key, meta_key))))"
  using assms
  by (auto simp: store_def store_try_def store_finally_frame Let_def box_defs
        AList.update_conv' split: sum.splits option.splits)

theorem store_writes_key_record_only_after_both_backend_stores_witness:
  "fst (store (stub_ext (Some 1)) stub_box ''/home/u/a.txt'' empty_world)
     = Inl (storage_failed boom) \<and>
   retrieval_keys (snd (store (stub_ext (Some 1)) stub_box ''/home/u/a.txt'' empty_world)) = None \<and>
   new_events empty_world (snd (store (stub_ext (Some 1)) stub_box ''/home/u/a.txt'' empty_world))
     = [Store ''/home/u/a.txt.gpg'' ''u1.data'', Store ''/home/u/a.txt.sig'' ''u1.meta'']"
proof -
  let ?w = "empty_world"
  let ?run = "store (stub_ext (Some 1)) stub_box ''/home/u/a.txt'' ?w"
  have h1: "gpg stub_box = Inr stub_gpg" and h2: "key stub_box = Inr ''ABCD''"
    by (simp_all add: box_defs stub_defs)
  have h3: "encrypt stub_gpg ''/home/u/a.txt'' ''ABCD''
              = Inr (''/home/u/a.txt.gpg'', ''/home/u/a.txt.sig'')"
    by (simp add: stub_defs)
  have h4: "backend (stub_ext (Some 1)) stub_box = Inr (stub_backend (Some 1))"
    by (rule stub_backend_is_backend)
  have h5: "encrypted_names (uuid4 (stub_ext (Some 1))) = (''u1.data'', ''u1.meta'')"
    by (simp add: store_defs stub_defs)
  have h6: "backend_store (stub_backend (Some 1)) ''/home/u/a.txt.gpg'' ''u1.data'' (bstate ?w)
              = (Inr (Some ''key:u1.data''), (1, []))"
    by (simp add: stub_defs)
  have h7: "backend_store (stub_backend (Some 1)) ''/home/u/a.txt.sig'' ''u1.meta'' (1, [])
              = (Inl boom, (2, []))"
    by (simp add: stub_defs)
  have h8: "?run = (fst ?run, snd ?run)"
    by simp
  have k: "retrieval_keys ?w = None"
    by (simp add: stub_defs)
  from store_writes_key_record_only_after_both_backend_stores [OF h1 h2 h3 h4 h5 h6 h7 h8] k
  show ?thesis by simp
qed

text \<open>
  Claim C5 as stated (\<^verbatim>\<open>Box.store\<close> fails for a name already present and leaves the
  first record unchanged) does not hold: \<^verbatim>\<open>Box.store\<close> makes no such check, and the second
  store of \<^verbatim>\<open>a.txt\<close> returns normally and replaces the record.
\<close>

theorem store_of_existing_name_overwrites_record:
  "contains ''a.txt'' (stored_world []) \<and>
   lookup (retrieval_keys (stored_world [])) ''a.txt'' = Some (Some ''k1'', Some ''k2'') \<and>
   fst (store (stub_ext None) stub_box ''/home/u/a.txt'' (stored_world [])) = Inr () \<and>
   lookup (retrieval_keys (snd (store (stub_ext None) stub_box ''/home/u/a.txt'' (stored_world []))))
     ''a.txt'' = Some (Some ''key:u1.data'', Some ''key:u1.meta'')"
  by (simp add: store_defs box_defs stub_defs)

text \<open>
  Claim C5, amended. The check is made by the command \<^verbatim>\<open>put\<close>, before it encrypts or
  calls \<^verbatim>\<open>Box.store\<close>: for a source whose name is already present in an existing box, it
  echoes \<^verbatim>\<open>Source name already exists in box.\<close> and exits with status 1, and nothing is
  changed, so the stored record remains as it was.
\<close>

theorem put_refuses_existing_name:
  assumes "exists w" and "contains (path_name source) w"
  shows "put ext g base_path box_name source w
           = (([''Source name already exists in box.''], 1), w)"
  using assms by (simp add: put_def)

theorem put_refuses_existing_name_witness:
  "exists (stored_world []) \<and> contains (path_name ''/home/u/a.txt'') (stored_world []) \<and>
   put (stub_ext None) stub_gpg ''/base'' ''box'' ''/home/u/a.txt'' (stored_world []) =
     (([''Source name already exists in box.''], 1), stored_world [])"
proof -
  have h1: "exists (stored_world [])"
    by (simp add: box_defs stub_defs)
  have h2: "contains (path_name ''/home/u/a.txt'') (stored_world [])"
    by (simp add: box_defs stub_defs path_name_def)
  from put_refuses_existing_name [OF h1 h2] h1 h2 show ?thesis by simp
qed

text \<open>
  Once the \<^verbatim>\<open>try\<close> statement of \<^verbatim>\<open>Box.store\<close> is entered, its \<^verbatim>\<open>finally\<close> block removes both
  artifacts, whether the call returns or fails.
\<close>

lemma store_removes_artifacts_once_in_try_block:
  assumes "gpg bx = Inr g" and "key bx = Inr k"
      and "encrypt g src_path k = Inr (data_path, meta_path)"
      and "backend ext bx = Inr b"
      and "store ext bx src_path w = (r, w')"
  shows "data_path \<notin> files w' \<and> meta_path \<notin> files w'"
  using assms
  by (auto simp: store_def store_finally_def files_unlink_if_exists Let_def
        split: sum.splits prod.splits dest!: files_store_try)

text \<open>
  When obtaining the backend instance fails, \<^verbatim>\<open>Box.store\<close> ends before its \<^verbatim>\<open>try\<close>
  statement with that exception, and the artifacts of the encryption are left in place.
\<close>

lemma store_leaves_artifacts_when_backend_fails:
  assumes "gpg bx = Inr g" and "key bx = Inr k"
      and "encrypt g src_path k = Inr (data_path, meta_path)"
      and "backend ext bx = Inl e"
  shows "store ext bx src_path w = (Inl e, w\<lparr>files := files w \<union> {data_path, meta_path}\<rparr>)"
  using assms by (simp add: store_def Let_def split: prod.splits)

text \<open>
  Claim C7. The backend instance is obtained between the encryption and the \<^verbatim>\<open>try\<close>
  statement. For a box whose configuration has a key but no \<^verbatim>\<open>backend\<close> entry,
  \<^verbatim>\<open>self.backend()\<close> raises \<^verbatim>\<open>KeyError\<close> there: \<^verbatim>\<open>Box.store\<close> fails and both artifacts that the
  encryption produced are still present when it does.
\<close>

theorem store_leaves_artifacts_when_backend_is_not_configured:
  "store (stub_ext None) keyonly_box ''/home/u/a.txt'' empty_world =
     (Inl (PyExc KeyError (quoted ''backend'')),
      empty_world\<lparr>files := {''/home/u/a.txt.gpg'', ''/home/u/a.txt.sig''}\<rparr>)"
  by (simp add: store_defs box_defs stub_defs quoted_def)

section \<open>Box.retrieve: the polling loop and the trace of a call\<close>

lemmas retrieve_defs = retrieve_def retrieve_try_def retrieve_jobs_def retrieve_download_def
  retrieve_finally_def retrieval_failed_def unlink_if_exists_def

text \<open>
  The loop is followed along its own recursion: each round adds one status request, and
  a sleep when the status is \<^verbatim>\<open>running\<close>, and touches neither record store.
\<close>

lemma poll_establishes_post:
  assumes "poll b data_job meta_job w = Some y"
  shows "poll_post data_job meta_job w y"
proof (rule poll.raw_induct [where P = "\<lambda>b dj mj w y. poll_post dj mj w y", OF _ assms])
  fix approx ::
    "'a backend \<Rightarrow> ident \<Rightarrow> ident \<Rightarrow> 'a world \<Rightarrow> ((pyexc + JobStatus) \<times> 'a world) option"
  fix b dj mj w y
  assume IH: "\<And>b dj mj w y. approx b dj mj w = Some y \<Longrightarrow> poll_post dj mj w y"
  assume step: "(case call (RetrieveStatus dj mj) (backend_retrieve_status b dj mj) w of
                   (Inl e, w1) \<Rightarrow> Some (Inl e, w1)
                 | (Inr status, w1) \<Rightarrow>
                     if status = running
                     then approx b dj mj (w1\<lparr>events := events w1 @ [Sleep 60]\<rparr>)
                     else Some (Inr status, w1)) = Some y"
  obtain r1 s1 where st: "backend_retrieve_status b dj mj (bstate w) = (r1, s1)"
    by (cases "backend_retrieve_status b dj mj (bstate w)")
  let ?w1 = "w\<lparr>bstate := s1, events := events w @ [RetrieveStatus dj mj]\<rparr>"
  show "poll_post dj mj w y"
  proof (cases r1)
    case (Inl e)
    with step st have "y = (Inl e, ?w1)" by (simp add: call_def)
    then show ?thesis by (simp add: poll_post_def)
  next
    case (Inr status)
    show ?thesis
    proof (cases "status = running")
      case True
      with step st Inr
      have "approx b dj mj (?w1\<lparr>events := events ?w1 @ [Sleep 60]\<rparr>) = Some y"
        by (simp add: call_def)
      from IH [OF this] show ?thesis by (auto simp: poll_post_def)
    next
      case False
      with step st Inr have "y = (Inr status, ?w1)" by (simp add: call_def)
      with False show ?thesis by (simp add: poll_post_def)
    qed
  qed
qed

lemma poll_trace:
  assumes "poll b data_job meta_job w = Some (r, w')"
  shows "retrieval_keys w' = retrieval_keys w \<and> retrieval_jobs w' = retrieval_jobs w
         \<and> files w' = files w \<and> r \<noteq> Inr running
         \<and> (\<exists>evs. events w' = events w @ evs
                \<and> set evs \<subseteq> {RetrieveStatus data_job meta_job, Sleep 60})"
  using poll_establishes_post [OF assms] by (simp add: poll_post_def)

lemma retrieve_jobs_existing:
  "has_retrieval_jobs source w \<Longrightarrow>
   retrieve_jobs b source opts w = (Inr (get_retrieval_jobs source w), w)"
  by (simp add: retrieve_jobs_def)

lemma retrieve_jobs_new_events:
  assumes "\<not> has_retrieval_jobs source w"
      and "get_retrieval_keys source w = (data_key, meta_key)"
      and "retrieve_jobs b source opts w = (r, w1)"
  shows "events w1 = events w @
           RetrieveInit data_key opts #
             (case fst (backend_retrieve_init b data_key opts (bstate w)) of
                Inl e \<Rightarrow> [] | Inr j \<Rightarrow> [RetrieveInit meta_key opts])"
  using assms
  by (auto simp: retrieve_jobs_def call_def set_retrieval_jobs_def
        split: sum.splits prod.splits option.splits)

lemma retrieve_jobs_keeps_keys:
  "retrieve_jobs b source opts w = (r, w1) \<Longrightarrow> retrieval_keys w1 = retrieval_keys w"
  by (auto simp: retrieve_jobs_def call_def set_retrieval_jobs_def
        split: sum.splits prod.splits option.splits if_splits)

lemma retrieve_download_trace:
  assumes "retrieve_download b bx source dst data_job meta_job status w = (r, dp, mp, w')"
  shows "retrieval_keys w' = retrieval_keys w \<and> \<not> has_retrieval_jobs source w'
         \<and> (\<exists>evs. events w' = events w @ evs
                \<and> set evs \<subseteq> {RetrieveFinish data_job, RetrieveFinish meta_job})
         \<and> (status = failure \<longrightarrow> dp = None \<and> events w' = events w)"
  using assms
  by (auto simp: retrieve_download_def call_def clear_retrieval_jobs_def has_retrieval_jobs_def
        lookup_def AList.delete_conv' Let_def
        split: sum.splits prod.splits option.splits if_splits)

lemma retrieve_finally_frame:
  assumes "retrieve_finally r dp mp w = (r', w')"
  shows "retrieval_keys w' = retrieval_keys w \<and> retrieval_jobs w' = retrieval_jobs w
         \<and> events w' = events w \<and> (dp = None \<longrightarrow> r' = Inl (unbound_local ''data_path''))"
  using assms
  by (auto simp: retrieve_finally_def Let_def unlink_if_exists_def split: option.splits if_splits)

lemma retrieve_try_trace:
  assumes "retrieve_try b bx source dst opts w = Some (r, dp, mp, w1)"
      and "retrieve_jobs b source opts w = (rj, wj)"
  shows "\<exists>evs. events w1 = events wj @ evs
           \<and> (\<forall>jobs. rj = Inr jobs \<longrightarrow> set evs \<subseteq> job_events jobs)
           \<and> (\<forall>e. rj = Inl e \<longrightarrow> evs = [])"
proof (cases rj)
  case (Inl e)
  with assms show ?thesis by (simp add: retrieve_try_def)
next
  case (Inr jobs)
  obtain dj mj where jobs: "jobs = (dj, mj)" by (cases jobs)
  from assms Inr jobs obtain rp wp where p: "poll b dj mj wj = Some (rp, wp)"
    by (auto simp: retrieve_try_def split: option.splits)
  from poll_trace [OF p] obtain evs_p where
    evs_p: "events wp = events wj @ evs_p" "set evs_p \<subseteq> {RetrieveStatus dj mj, Sleep 60}"
    by blast
  show ?thesis
  proof (cases rp)
    case (Inl e)
    with assms Inr jobs p have "w1 = wp" by (simp add: retrieve_try_def)
    with evs_p Inr jobs show ?thesis by (auto simp: job_events_def)
  next
    case st: (Inr status)
    with assms Inr jobs p
    have d: "retrieve_download b bx source dst dj mj status wp = (r, dp, mp, w1)"
      by (simp add: retrieve_try_def)
    from retrieve_download_trace [OF d] obtain evs_d where
      "events w1 = events wp @ evs_d" "set evs_d \<subseteq> {RetrieveFinish dj, RetrieveFinish mj}"
      by blast
    with evs_p have "events w1 = events wj @ (evs_p @ evs_d)"
      "set (evs_p @ evs_d) \<subseteq> job_events (dj, mj)"
      by (auto simp: job_events_def)
    with Inr jobs show ?thesis by blast
  qed
qed

lemma init_calls_job_events: "set evs \<subseteq> job_events jobs \<Longrightarrow> init_calls evs = []"
  by (auto simp: init_calls_def job_events_def filter_empty_conv)

text \<open>
  Claim C1. When a job record is persisted for the source, \<^verbatim>\<open>Box.retrieve\<close> takes the
  stored pair of job handles without calling the backend or changing anything, and a
  call that returns has made no \<^verbatim>\<open>retrieve_init\<close> call: all it asked of the backend are
  status requests and downloads for the stored pair. When no job record is persisted,
  the \<^verbatim>\<open>retrieve_init\<close> calls of a call that returns are one for the data key and, if
  that one returned, one for the meta key.
\<close>

theorem retrieve_reuses_persisted_jobs_without_retrieve_init:
  assumes "backend ext bx = Inr b"
  shows "(has_retrieval_jobs source w \<longrightarrow>
            retrieve_jobs b source opts w = (Inr (get_retrieval_jobs source w), w)
            \<and> (\<forall>r w'. retrieve ext bx source dst opts w = Some (r, w') \<longrightarrow>
                  init_calls (new_events w w') = []
                  \<and> set (new_events w w') \<subseteq> job_events (get_retrieval_jobs source w)))
       \<and> (\<not> has_retrieval_jobs source w \<longrightarrow>
            (\<forall>r w'. retrieve ext bx source dst opts w = Some (r, w') \<longrightarrow>
               init_calls (new_events w w') =
                 RetrieveInit (fst (get_retrieval_keys source w)) opts #
                   (case fst (backend_retrieve_init b (fst (get_retrieval_keys source w)) opts
                                (bstate w)) of
                      Inl e \<Rightarrow> []
                    | Inr j \<Rightarrow> [RetrieveInit (snd (get_retrieval_keys source w)) opts])))"
proof -
  have run: "\<exists>r0 dp mp w1. retrieve_try b bx source dst opts w = Some (r0, dp, mp, w1)
               \<and> events w' = events w1"
    if "retrieve ext bx source dst opts w = Some (r, w')" for r w'
    using that assms
    by (auto simp: retrieve_def split: option.splits dest: retrieve_finally_frame)
  show ?thesis
  proof (intro conjI impI allI)
    assume "has_retrieval_jobs source w"
    then show "retrieve_jobs b source opts w = (Inr (get_retrieval_jobs source w), w)"
      by (rule retrieve_jobs_existing)
  next
    fix r w'
    assume has: "has_retrieval_jobs source w"
       and ret: "retrieve ext bx source dst opts w = Some (r, w')"
    from run [OF ret] obtain r0 dp mp w1 where
      t: "retrieve_try b bx source dst opts w = Some (r0, dp, mp, w1)"
      and e: "events w' = events w1"
      by blast
    from retrieve_try_trace [OF t retrieve_jobs_existing [OF has]] e
    have sub: "set (new_events w w') \<subseteq> job_events (get_retrieval_jobs source w)"
      by (auto simp: new_events_def)
    then show "set (new_events w w') \<subseteq> job_events (get_retrieval_jobs source w)" .
    from sub show "init_calls (new_events w w') = []"
      by (rule init_calls_job_events)
  next
    fix r w'
    assume nohas: "\<not> has_retrieval_jobs source w"
       and ret: "retrieve ext bx source dst opts w = Some (r, w')"
    from run [OF ret] obtain r0 dp mp w1 where
      t: "retrieve_try b bx source dst opts w = Some (r0, dp, mp, w1)"
      and e: "events w' = events w1"
      by blast
    obtain rj wj where j: "retrieve_jobs b source opts w = (rj, wj)"
      by (cases "retrieve_jobs b source opts w")
    let ?inits = "RetrieveInit (fst (get_retrieval_keys source w)) opts #
                   (case fst (backend_retrieve_init b (fst (get_retrieval_keys source w)) opts
                                (bstate w)) of
                      Inl e \<Rightarrow> []
                    | Inr j \<Rightarrow> [RetrieveInit (snd (get_retrieval_keys source w)) opts])"
    have k: "get_retrieval_keys source w
               = (fst (get_retrieval_keys source w), snd (get_retrieval_keys source w))"
      by simp
    from retrieve_jobs_new_events [OF nohas k j] have evj: "events wj = events w @ ?inits" .
    from retrieve_try_trace [OF t j] obtain evs where
      evs: "events w1 = events wj @ evs" "init_calls evs = []"
      by (cases rj) (auto dest: init_calls_job_events simp: init_calls_def)
    from evj evs e have "new_events w w' = ?inits @ evs"
      by (simp add: new_events_def)
    with evs(2) show "init_calls (new_events w w') = ?inits"
      by (simp add: init_calls_def split: sum.splits)
  qed
qed

lemma retrieve_pending_run:
  "retrieve (stub_ext None) stub_box ''a.txt'' ''/dst'' [] (pending_world [running, succeeded]) =
     Some (Inr (),
       (pending_world [running, succeeded])\<lparr>retrieval_jobs := Some [], bstate := (4, []),
          events := [RetrieveStatus (Some ''j1'') (Some ''j2''), Sleep 60,
                     RetrieveStatus (Some ''j1'') (Some ''j2''),
                     RetrieveFinish (Some ''j1''), RetrieveFinish (Some ''j2'')]\<rparr>)"
  by (auto simp: retrieve_defs poll.simps box_defs stub_defs)

lemma retrieve_stored_run:
  "retrieve (stub_ext None) stub_box ''a.txt'' ''/dst'' [] (stored_world [succeeded]) =
     Some (Inr (),
       (stored_world [succeeded])\<lparr>retrieval_jobs := Some [], bstate := (5, []),
          events := [RetrieveInit (Some ''k1'') [], RetrieveInit (Some ''k2'') [],
                     RetrieveStatus (Some ''job:k1'') (Some ''job:k2''),
                     RetrieveFinish (Some ''job:k1''), RetrieveFinish (Some ''job:k2'')]\<rparr>)"
  by (auto simp: retrieve_defs poll.simps box_defs stub_defs)

theorem retrieve_reuses_persisted_jobs_without_retrieve_init_witness:
  "has_retrieval_jobs ''a.txt'' (pending_world [running, succeeded]) \<and>
   get_retrieval_jobs ''a.txt'' (pending_world [running, succeeded]) = (Some ''j1'', Some ''j2'') \<and>
   (\<exists>w'. retrieve (stub_ext None) stub_box ''a.txt'' ''/dst'' [] (pending_world [running, succeeded])
            = Some (Inr (), w')
        \<and> init_calls (new_events (pending_world [running, succeeded]) w') = []
        \<and> set (new_events (pending_world [running, succeeded]) w')
            \<subseteq> job_events (Some ''j1'', Some ''j2'')) \<and>
   \<not> has_retrieval_jobs ''a.txt'' (stored_world [succeeded]) \<and>
   (\<exists>w'. retrieve (stub_ext None) stub_box ''a.txt'' ''/dst'' [] (stored_world [succeeded])
            = Some (Inr (), w')
        \<and> init_calls (new_events (stored_world [succeeded]) w')
            = [RetrieveInit (Some ''k1'') [], RetrieveInit (Some ''k2'') []])"
proof -
  have b: "backend (stub_ext None) stub_box = Inr (stub_backend None)"
    by (rule stub_backend_is_backend)
  have h1: "has_retrieval_jobs ''a.txt'' (pending_world [running, succeeded])"
    and j: "get_retrieval_jobs ''a.txt'' (pending_world [running, succeeded])
              = (Some ''j1'', Some ''j2'')"
    and h2: "\<not> has_retrieval_jobs ''a.txt'' (stored_world [succeeded])"
    and k: "get_retrieval_keys ''a.txt'' (stored_world [succeeded]) = (Some ''k1'', Some ''k2'')"
    by (simp_all add: box_defs stub_defs)
  have i: "fst (backend_retrieve_init (stub_backend None) (Some ''k1'') []
                  (bstate (stored_world [succeeded])))
             = Inr (Some ''job:k1'')"
    by (simp add: stub_defs)
  note pending = retrieve_reuses_persisted_jobs_without_retrieve_init
                   [OF b, of "''a.txt''" "pending_world [running, succeeded]" "[]" "''/dst''"]
  note stored = retrieve_reuses_persisted_jobs_without_retrieve_init
                  [OF b, of "''a.txt''" "stored_world [succeeded]" "[]" "''/dst''"]
  from pending h1 j retrieve_pending_run have p1:
    "\<exists>w'. retrieve (stub_ext None) stub_box ''a.txt'' ''/dst'' [] (pending_world [running, succeeded])
            = Some (Inr (), w')
        \<and> init_calls (new_events (pending_world [running, succeeded]) w') = []
        \<and> set (new_events (pending_world [running, succeeded]) w')
            \<subseteq> job_events (Some ''j1'', Some ''j2'')"
    by simp
  from stored h2 k i retrieve_stored_run have p2:
    "\<exists>w'. retrieve (stub_ext None) stub_box ''a.txt'' ''/dst'' [] (stored_world [succeeded])
            = Some (Inr (), w')
        \<and> init_calls (new_events (stored_world [succeeded]) w')
            = [RetrieveInit (Some ''k1'') [], RetrieveInit (Some ''k2'') []]"
    by simp
  from h1 j h2 p1 p2 show ?thesis by blast
qed

section \<open>Box.retrieve: the end of the jobs\<close>

text \<open>
  When the polling loop ends with a status, the job record is cleared and the key store
  is as before. When that status is \<^verbatim>\<open>failure\<close>, the exception that leaves \<^verbatim>\<open>Box.retrieve\<close>
  is the \<^verbatim>\<open>UnboundLocalError\<close> of the \<^verbatim>\<open>finally\<close> block.
\<close>

lemma retrieve_at_terminal_status:
  assumes "backend ext bx = Inr b"
      and "retrieve_jobs b source opts w = (Inr (data_job, meta_job), wj)"
      and "poll b data_job meta_job wj = Some (Inr status, wp)"
      and "retrieve ext bx source dst opts w = Some (r, w')"
  shows "\<not> has_retrieval_jobs source w' \<and> retrieval_keys w' = retrieval_keys w
         \<and> (status = failure \<longrightarrow> r = Inl (unbound_local ''data_path''))"
proof -
  obtain r0 dp mp w1 where
    d: "retrieve_download b bx source dst data_job meta_job status wp = (r0, dp, mp, w1)"
    by (metis prod_cases4)
  with assms have
    f: "retrieve_finally (case r0 of Inl e \<Rightarrow> Inl (retrieval_failed e) | Inr u \<Rightarrow> Inr ())
          dp mp w1 = (r, w')"
    by (simp add: retrieve_def retrieve_try_def)
  from retrieve_jobs_keeps_keys [OF assms(2)] poll_trace [OF assms(3)]
    retrieve_download_trace [OF d] retrieve_finally_frame [OF f]
  show ?thesis by (auto simp: has_retrieval_jobs_def)
qed

text \<open>
  Claim C2. A source with a key record and a pending job record, and a backend that
  reports \<^verbatim>\<open>failure\<close>: the job record is cleared and the key record is kept, but the call
  does not fail with the \<^verbatim>\<open>Retrieval operation failed\<close> exception that its handler
  raises. The \<^verbatim>\<open>finally\<close> block reads \<^verbatim>\<open>data_path\<close>, which is assigned only after the
  status check, and the call fails with \<^verbatim>\<open>UnboundLocalError\<close>.
\<close>

theorem retrieve_with_failed_job_raises_unbound_local_error:
  "retrieve (stub_ext None) stub_box ''a.txt'' ''/dst'' [] (pending_world [failure]) =
     Some (Inl (unbound_local ''data_path''),
       (pending_world [failure])\<lparr>retrieval_jobs := Some [], bstate := (1, []),
          events := [RetrieveStatus (Some ''j1'') (Some ''j2'')]\<rparr>)"
  by (auto simp: retrieve_defs poll.simps box_defs stub_defs)

section \<open>Box.retrieve and the command get for a name that is not stored\<close>

text \<open>
  Claim C6 as stated (\<^verbatim>\<open>Box.retrieve\<close> fails with a not-found error and starts no backend
  job) does not hold: without a key record and without a job record, \<^verbatim>\<open>Box.retrieve\<close>
  calls \<^verbatim>\<open>retrieve_init\<close> with the key \<^verbatim>\<open>None\<close> twice, and with a backend that accepts it
  the call returns normally.
\<close>

theorem retrieve_of_unknown_source_starts_backend_jobs:
  "\<not> contains ''a.txt'' empty_world \<and> \<not> has_retrieval_jobs ''a.txt'' empty_world \<and>
   retrieve (stub_ext None) stub_box ''a.txt'' ''/dst'' [] empty_world =
     Some (Inr (),
       empty_world\<lparr>retrieval_jobs := Some [], bstate := (5, []),
          events := [RetrieveInit None [], RetrieveInit None [],
                     RetrieveStatus (Some ''job:None'') (Some ''job:None''),
                     RetrieveFinish (Some ''job:None''), RetrieveFinish (Some ''job:None'')]\<rparr>)"
  by (auto simp: retrieve_defs poll.simps box_defs stub_defs)

text \<open>
  Claim C6, amended. The check is made by the command \<^verbatim>\<open>get\<close>, before it calls
  \<^verbatim>\<open>Box.retrieve\<close>: for a source without a key record in an existing box, it echoes
  \<^verbatim>\<open>Source name not found in box.\<close> and exits with status 1, and nothing is changed; in
  particular no backend call is made.
\<close>

theorem get_refuses_unknown_source:
  assumes "exists w" and "\<not> contains source w"
  shows "get ext g base_path box_name source destination w
           = Some (([''Source name not found in box.''], 1), w)"
  using assms by (simp add: get_def)

theorem get_refuses_unknown_source_witness:
  "exists empty_world \<and> \<not> contains ''a.txt'' empty_world \<and>
   get (stub_ext None) stub_gpg ''/base'' ''box'' ''a.txt'' ''/dst'' empty_world
     = Some (([''Source name not found in box.''], 1), empty_world)"
proof -
  have h1: "exists empty_world" and h2: "\<not> contains ''a.txt'' empty_world"
    by (simp_all add: box_defs stub_defs)
  from get_refuses_unknown_source [OF h1 h2] h1 h2 show ?thesis by simp
qed

section \<open>The commands put and get: the calls do not bind\<close>

lemma store_arity:
  "check_positional ''store'' [''src_path''] 3
     = Some (PyExc TypeError ''store() takes 2 positional arguments but 4 were given'')"
  by code_simp

lemma retrieve_arity:
  "check_positional ''retrieve'' [''source'', ''dst_path'', ''backend_options''] 1
     = Some (PyExc TypeError
         (''retrieve() missing 2 required positional arguments: '' @ quoted ''dst_path''
            @ '' and '' @ quoted ''backend_options''))"
  by code_simp

lemma store_call_with_three_arguments:
  "store_call ext bx [a, b, c] w =
     (Inl (PyExc TypeError ''store() takes 2 positional arguments but 4 were given''), w)"
  using store_arity by (simp add: store_call_def numeral_3_eq_3)

lemma retrieve_call_with_one_argument:
  "retrieve_call ext bx [a] w =
     Some (Inl (PyExc TypeError
         (''retrieve() missing 2 required positional arguments: '' @ quoted ''dst_path''
            @ '' and '' @ quoted ''backend_options'')), w)"
  using retrieve_arity by (simp add: retrieve_call_def)

text \<open>
  Claim C3. \<^verbatim>\<open>put\<close> calls \<^verbatim>\<open>box.store\<close> with three arguments, and \<^verbatim>\<open>store\<close> takes one;
  \<^verbatim>\<open>get\<close> calls \<^verbatim>\<open>box.retrieve\<close> with one argument, and \<^verbatim>\<open>retrieve\<close> takes three. A \<^verbatim>\<open>put\<close>
  that reaches the call (the box exists, the name is new, the box has a key and the
  encryption succeeded) echoes the \<^verbatim>\<open>TypeError\<close> and exits with status 1; no backend call
  has been made and the backend and the key store are as before. A \<^verbatim>\<open>get\<close> that reaches
  the call (the box exists and holds the name) echoes the \<^verbatim>\<open>TypeError\<close> and exits with
  status 1, and nothing is changed.
\<close>

theorem cli_put_and_get_fail_with_argument_mismatch:
  "(exists w \<and> \<not> contains (path_name source) w \<and> key (get_box base_path box_name w) = Inr k
      \<and> encrypt g source k = Inr (data_path, meta_path) \<longrightarrow>
      fst (put ext g base_path box_name source w)
        = ([''store() takes 2 positional arguments but 4 were given''], 1)
      \<and> events (snd (put ext g base_path box_name source w)) = events w
      \<and> bstate (snd (put ext g base_path box_name source w)) = bstate w
      \<and> retrieval_keys (snd (put ext g base_path box_name source w)) = retrieval_keys w)
   \<and> (exists w \<and> contains stored w \<longrightarrow>
        get ext g base_path box_name stored destination w
          = Some (([''retrieve() missing 2 required positional arguments: '' @ quoted ''dst_path''
                      @ '' and '' @ quoted ''backend_options''], 1), w))"
  by (simp add: put_def get_def store_call_with_three_arguments retrieve_call_with_one_argument
        unlink_if_exists_frame Let_def)

theorem cli_put_and_get_fail_with_argument_mismatch_witness:
  "fst (put (stub_ext None) stub_gpg ''/base'' ''box'' ''/home/u/a.txt'' empty_world)
     = ([''store() takes 2 positional arguments but 4 were given''], 1) \<and>
   events (snd (put (stub_ext None) stub_gpg ''/base'' ''box'' ''/home/u/a.txt'' empty_world)) = [] \<and>
   get (stub_ext None) stub_gpg ''/base'' ''box'' ''a.txt'' ''/dst'' (stored_world [])
     = Some (([''retrieve() missing 2 required positional arguments: '' @ quoted ''dst_path''
                 @ '' and '' @ quoted ''backend_options''], 1), stored_world [])"
proof -
  have p: "exists empty_world \<and> \<not> contains (path_name ''/home/u/a.txt'') empty_world
      \<and> key (get_box ''/base'' ''box'' empty_world) = Inr ''ABCD''
      \<and> encrypt stub_gpg ''/home/u/a.txt'' ''ABCD''
          = Inr (''/home/u/a.txt.gpg'', ''/home/u/a.txt.sig'')"
    by (simp add: box_defs stub_defs get_box_def path_name_def)
  have g: "exists (stored_world []) \<and> contains ''a.txt'' (stored_world [])"
    by (simp add: box_defs stub_defs)
  have e: "events empty_world = []"
    by (simp add: stub_defs)
  from cli_put_and_get_fail_with_argument_mismatch
         [of empty_world "''/home/u/a.txt''" "''/base''" "''box''" "''ABCD''" stub_gpg
             "''/home/u/a.txt.gpg''" "''/home/u/a.txt.sig''" "stub_ext None"] p e
  have 1: "fst (put (stub_ext None) stub_gpg ''/base'' ''box'' ''/home/u/a.txt'' empty_world)
             = ([''store() takes 2 positional arguments but 4 were given''], 1) \<and>
           events (snd (put (stub_ext None) stub_gpg ''/base'' ''box'' ''/home/u/a.txt''
                          empty_world)) = []"
    by simp
  from cli_put_and_get_fail_with_argument_mismatch
         [of "stored_world []" _ "''/base''" "''box''" _ stub_gpg _ _ "stub_ext None"
             "''a.txt''" "''/dst''"] g
  have 2: "get (stub_ext None) stub_gpg ''/base'' ''box'' ''a.txt'' ''/dst'' (stored_world [])
     = Some (([''retrieve() missing 2 required positional arguments: '' @ quoted ''dst_path''
                 @ '' and '' @ quoted ''backend_options''], 1), stored_world [])"
    by simp
  from 1 2 show ?thesis by simp
qed

end
